theory Spec2Isabelle
  imports Main
begin

section \<open>Rate limiter (src/middleware/rate-limit.ts)\<close>

text \<open>
  The middleware keeps a process-local map from a key to a bucket. Times are the
  integer milliseconds of \<^verbatim>\<open>Date.now()\<close>; \<^verbatim>\<open>windowMs\<close> and \<^verbatim>\<open>max\<close> are the
  numbers of the options object. A header value is the number that the source passes
  through \<^verbatim>\<open>String(...)\<close>.
\<close>

record Bucket =
  tokens :: int
  resetAt :: int

type_synonym buckets = "string \<rightharpoonup> Bucket"

datatype decision = Next | Limited int

record rl_result =
  rl_buckets :: buckets
  rl_headers :: "(string \<times> int) list"
  rl_decision :: decision

text \<open>\<^verbatim>\<open>Math.ceil(d / 1000)\<close> and \<^verbatim>\<open>Math.floor(t / 1000)\<close> on integers.\<close>

definition ceil_div_1000 :: "int \<Rightarrow> int" where
  "ceil_div_1000 d = - ((- d) div 1000)"

definition floor_div_1000 :: "int \<Rightarrow> int" where
  "floor_div_1000 t = t div 1000"

definition rateLimit :: "int \<Rightarrow> int \<Rightarrow> string \<Rightarrow> int \<Rightarrow> buckets \<Rightarrow> rl_result" where
  "rateLimit windowMs mx key now bs =
     (let fresh = \<lparr>rl_buckets = bs(key \<mapsto> \<lparr>tokens = mx - 1, resetAt = now + windowMs\<rparr>),
                   rl_headers = [], rl_decision = Next\<rparr>
      in case bs key of
           None \<Rightarrow> fresh
         | Some bucket \<Rightarrow>
             if now \<ge> resetAt bucket then fresh
             else if tokens bucket \<le> 0 then
               \<lparr>rl_buckets = bs,
                rl_headers =
                  [(''Retry-After'', max 1 (ceil_div_1000 (resetAt bucket - now))),
                   (''X-RateLimit-Limit'', mx),
                   (''X-RateLimit-Remaining'', 0),
                   (''X-RateLimit-Reset'', floor_div_1000 (resetAt bucket))],
                rl_decision = Limited (max 1 (ceil_div_1000 (resetAt bucket - now)))\<rparr>
             else
               \<lparr>rl_buckets = bs(key \<mapsto> bucket\<lparr>tokens := tokens bucket - 1\<rparr>),
                rl_headers =
                  [(''X-RateLimit-Limit'', mx),
                   (''X-RateLimit-Remaining'', tokens bucket - 1),
                   (''X-RateLimit-Reset'', floor_div_1000 (resetAt bucket))],
                rl_decision = Next\<rparr>)"

text \<open>A sequence of requests for one key, each at its own time; the decisions in order.\<close>

fun requests :: "int \<Rightarrow> int \<Rightarrow> string \<Rightarrow> int list \<Rightarrow> buckets \<Rightarrow> decision list \<times> buckets" where
  "requests windowMs mx key [] bs = ([], bs)"
| "requests windowMs mx key (t # ts) bs =
     (let r = rateLimit windowMs mx key t bs;
          (ds, bs') = requests windowMs mx key ts (rl_buckets r)
      in (rl_decision r # ds, bs'))"


section \<open>Responses, rows and the database\<close>

text \<open>
  A handler answers through the response helper: \<^verbatim>\<open>success(data, status?)\<close>,
  \<^verbatim>\<open>error(message, status?)\<close>, the error built from a schema failure, or a redirect.
  The optional status is \<open>None\<close> where the source passes none. \<open>JDate\<close> is an instant in
  milliseconds (rendered by \<^verbatim>\<open>toISOString\<close>), \<open>JNum\<close> a number (also where the source
  renders it with \<^verbatim>\<open>String\<close>).
\<close>

datatype jval = JNull | JBool bool | JNum int | JStr string | JDate int
  | JObj "(string \<times> jval) list"

datatype response =
    Success jval "nat option"
  | Error string "nat option"
  | SchemaError
  | Redirect string

text \<open>The tables of the migrations: users, tokens, id_cards.\<close>

record user_row =
  uid :: nat
  email :: string
  name :: string
  password :: string
  role :: string
  emailVerified :: "int option"

record token_row =
  tokenId :: nat
  userId :: nat
  tokenType :: string
  tokenHash :: string
  expiresAt :: int
  usedAt :: "int option"
  createdAt :: int

record card_row =
  cardId :: nat
  cardUserId :: nat
  imageUrl :: "string option"
  publicId :: "string option"

record database =
  users :: "user_row list"
  tokens_table :: "token_row list"
  nextTokenId :: nat
  idCards :: "card_row list"

text \<open>
  \<^verbatim>\<open>tokens.create({data: {userId, type, tokenHash, expiresAt}})\<close>: the id is the next
  autoincrement value, \<^verbatim>\<open>usedAt\<close> has no default and is NULL, \<^verbatim>\<open>createdAt\<close> defaults to the
  current timestamp.
\<close>

definition tokens_create :: "nat \<Rightarrow> string \<Rightarrow> string \<Rightarrow> int \<Rightarrow> int \<Rightarrow> database \<Rightarrow> database" where
  "tokens_create owner ty h expires now db =
     db\<lparr>tokens_table := tokens_table db @
           [\<lparr>tokenId = nextTokenId db, userId = owner, tokenType = ty, tokenHash = h,
             expiresAt = expires, usedAt = None, createdAt = now\<rparr>],
        nextTokenId := Suc (nextTokenId db)\<rparr>"

text \<open>\<^verbatim>\<open>tokens.findFirst({where: {type, tokenHash, usedAt: null}})\<close>.\<close>

definition tokens_findFirst :: "string \<Rightarrow> string \<Rightarrow> database \<Rightarrow> token_row option" where
  "tokens_findFirst ty h db =
     find (\<lambda>r. tokenType r = ty \<and> tokenHash r = h \<and> usedAt r = None) (tokens_table db)"

text \<open>
  \<^verbatim>\<open>users.update({where: {id}, data: {password}})\<close> and
  \<^verbatim>\<open>tokens.update({where: {id}, data: {usedAt}})\<close>: an update of a row that does not exist
  rejects (\<open>None\<close>).
\<close>

definition users_update_password :: "nat \<Rightarrow> string \<Rightarrow> database \<Rightarrow> database option" where
  "users_update_password i hashed db =
     (if i \<in> set (map uid (users db))
      then Some (db\<lparr>users := map (\<lambda>u. if uid u = i then u\<lparr>password := hashed\<rparr> else u) (users db)\<rparr>)
      else None)"

definition tokens_update_usedAt :: "nat \<Rightarrow> int \<Rightarrow> database \<Rightarrow> database option" where
  "tokens_update_usedAt i now db =
     (if i \<in> set (map tokenId (tokens_table db))
      then Some (db\<lparr>tokens_table :=
             map (\<lambda>r. if tokenId r = i then r\<lparr>usedAt := Some now\<rparr> else r) (tokens_table db)\<rparr>)
      else None)"

text \<open>JavaScript truthiness of an optional string: \<^verbatim>\<open>undefined\<close>, \<^verbatim>\<open>null\<close> and \<^verbatim>\<open>""\<close> are falsy.\<close>

definition truthy :: "string option \<Rightarrow> bool" where
  "truthy s = (case s of None \<Rightarrow> False | Some v \<Rightarrow> v \<noteq> [])"

text \<open>
  The handlers lower-case an email with the string method \<^verbatim>\<open>toLowerCase\<close> of the language,
  which is not part of the repository: the handler below takes it as the parameter
  \<open>toLowerCase\<close>. On a string of ASCII characters the method changes the letters A to Z
  only, which is what the concrete runs, all on ASCII emails, use.
\<close>

definition ascii_toLowerCase :: "string \<Rightarrow> string" where
  "ascii_toLowerCase s =
     map (\<lambda>c. if 65 \<le> (of_char c :: nat) \<and> (of_char c :: nat) \<le> 90
               then char_of ((of_char c :: nat) + 32) else c) s"

text \<open>The bindings of the worker that the handlers read.\<close>

record env =
  ENVIRONMENT :: "string option"
  DEV_MODE :: "string option"
  JWT_SECRET :: string

section \<open>Password reset (src/controllers/AuthController)\<close>

text \<open>
  \<^verbatim>\<open>POST /auth/forgot-password\<close>. The body is \<open>None\<close> when \<^verbatim>\<open>c.req.json()\<close> rejects, else
  the optional \<^verbatim>\<open>email\<close> field. \<open>sha256Hex\<close> is the digest of \<^verbatim>\<open>utils/crypto\<close>,
  \<open>toLowerCase\<close> the string method of that name,
  \<open>rawToken\<close> the value that \<^verbatim>\<open>generateToken(32)\<close> draws, \<open>email_throws\<close> whether the
  mail step raises.
\<close>

definition ok_body :: "(string \<times> jval) list" where
  "ok_body = [(''ok'', JBool True)]"

definition forgot_password ::
  "(string \<Rightarrow> string) \<Rightarrow> (string \<Rightarrow> string) \<Rightarrow> env \<Rightarrow> bool \<Rightarrow> string option option \<Rightarrow> string \<Rightarrow> int \<Rightarrow> database
     \<Rightarrow> database \<times> response" where
  "forgot_password sha256Hex toLowerCase e email_throws body rawToken now db =
     (case body of
        None \<Rightarrow>
          (db, Success (JObj (ok_body @ [(''message'',
             JStr ''If an account with this email exists, a password reset link has been sent.'')])) None)
      | Some field \<Rightarrow>
          (let em = toLowerCase (case field of None \<Rightarrow> [] | Some v \<Rightarrow> v) in
           if em = [] then (db, Success (JObj ok_body) None)
           else case find (\<lambda>u. email u = em) (users db) of
             None \<Rightarrow> (db, Success (JObj ok_body) None)
           | Some user \<Rightarrow>
               (let tokenHash = sha256Hex rawToken;
                    expires = now + 1000 * 60 * 30;
                    db' = tokens_create (uid user) ''reset'' tokenHash expires now db
                in if ENVIRONMENT e = Some ''development'' \<or> DEV_MODE e = Some ''true'' then
                     (db', Success (JObj (ok_body @ [(''devToken'', JStr rawToken),
                        (''message'', JStr ''In development mode, token is returned directly.'')])) None)
                   else if email_throws then
                     (db', Error ''Failed to send password reset email. Please try again later.''
                             (Some 500))
                   else
                     (db', Success (JObj (ok_body @ [(''message'',
                        JStr ''If an account exists with this email, a password reset link has been sent.'')]))
                        None))))"

text \<open>
  \<^verbatim>\<open>POST /auth/reset-password\<close>. The two writes are awaited one after the other, with no
  transaction around them; \<open>fault\<close> says which of them, if any, rejects for a reason outside
  the handler (the storage engine being unavailable). \<open>hashSync\<close> is the password hash
  (\<^verbatim>\<open>hashSync(newPassword, 8)\<close>).
\<close>

record reset_body =
  token :: "string option"
  newPassword :: "string option"
  confirmPassword :: "string option"

datatype db_fault = NoFault | UsersUpdateFails | TokensUpdateFails

definition reset_password ::
  "(string \<Rightarrow> string) \<Rightarrow> (string \<Rightarrow> string) \<Rightarrow> db_fault \<Rightarrow> reset_body option \<Rightarrow> int \<Rightarrow> database
     \<Rightarrow> database \<times> response" where
  "reset_password sha256Hex hashSync fault body now db =
     (case body of
        None \<Rightarrow> (db, Error ''Failed to reset password'' (Some 400))
      | Some b \<Rightarrow>
          if \<not> (truthy (token b) \<and> truthy (newPassword b) \<and> truthy (confirmPassword b)) then
            (db, Error ''Invalid payload'' (Some 400))
          else if newPassword b \<noteq> confirmPassword b then
            (db, Error ''Passwords don't match'' (Some 400))
          else
            (case tokens_findFirst ''reset'' (sha256Hex (case token b of None \<Rightarrow> [] | Some t \<Rightarrow> t)) db of
               None \<Rightarrow> (db, Error ''Token expired or invalid'' (Some 410))
             | Some rec \<Rightarrow>
                 if expiresAt rec < now then (db, Error ''Token expired or invalid'' (Some 410))
                 else
                   (let hashed = hashSync (case newPassword b of None \<Rightarrow> [] | Some p \<Rightarrow> p) in
                    case (if fault = UsersUpdateFails then None
                          else users_update_password (userId rec) hashed db) of
                      None \<Rightarrow> (db, Error ''Failed to reset password'' (Some 400))
                    | Some db1 \<Rightarrow>
                        (case (if fault = TokensUpdateFails then None
                               else tokens_update_usedAt (tokenId rec) now db1) of
                           None \<Rightarrow> (db1, Error ''Failed to reset password'' (Some 400))
                         | Some db2 \<Rightarrow> (db2, Success (JObj ok_body) None)))))"

section \<open>Id-card tokens (id-card controller)\<close>

text \<open>
  \<^verbatim>\<open>POST /id-card/generate\<close>. \<open>auth\<close> is \<^verbatim>\<open>payload?.data?.id\<close> (absent or \<open>0\<close> is falsy); the
  request is the outcome of reading and parsing the body; \<open>raw\<close> is what
  \<^verbatim>\<open>generateToken(24)\<close> draws.
\<close>

datatype gen_request = InvalidJson | SchemaInvalid | Parsed nat

definition id_card_generate ::
  "(string \<Rightarrow> string) \<Rightarrow> nat option \<Rightarrow> gen_request \<Rightarrow> string \<Rightarrow> int \<Rightarrow> database
     \<Rightarrow> database \<times> response" where
  "id_card_generate sha256Hex auth req raw now db =
     (case auth of
        None \<Rightarrow> (db, Error ''Unauthorized'' (Some 401))
      | Some user \<Rightarrow>
          if user = 0 then (db, Error ''Unauthorized'' (Some 401))
          else (case req of
            InvalidJson \<Rightarrow> (db, Error ''Invalid JSON body'' (Some 400))
          | SchemaInvalid \<Rightarrow> (db, SchemaError)
          | Parsed cid \<Rightarrow>
              (case find (\<lambda>c. cardId c = cid \<and> cardUserId c = user) (idCards db) of
                 None \<Rightarrow> (db, Error ''Card not found'' (Some 404))
               | Some cardRow \<Rightarrow>
                   if truthy (imageUrl cardRow) \<and> truthy (publicId cardRow) then
                     (db, Success (JObj [(''url'', case imageUrl cardRow of None \<Rightarrow> JNull | Some u \<Rightarrow> JStr u),
                                         (''publicId'', case publicId cardRow of None \<Rightarrow> JNull | Some p \<Rightarrow> JStr p)])
                            None)
                   else
                     (let tokenHash = sha256Hex raw;
                          expires = now + 1000 * 60 * 10
                      in (tokens_create user ''idcard'' tokenHash expires now db,
                          Success (JObj [(''token'', JStr raw), (''expiresAt'', JDate expires)]) None)))))"

text \<open>\<^verbatim>\<open>GET /id-card/verify/:token\<close>.\<close>

definition id_card_verify ::
  "(string \<Rightarrow> string) \<Rightarrow> string \<Rightarrow> int \<Rightarrow> database \<Rightarrow> database \<times> response" where
  "id_card_verify sha256Hex tok now db =
     (if tok = [] then (db, Error ''Missing token'' (Some 400))
      else case tokens_findFirst ''idcard'' (sha256Hex tok) db of
        None \<Rightarrow> (db, Error ''Token expired or invalid'' (Some 410))
      | Some rec \<Rightarrow>
          if expiresAt rec < now then (db, Error ''Token expired or invalid'' (Some 410))
          else
            (let cardRow = find (\<lambda>c. cardUserId c = userId rec) (idCards db);
                 owner = find (\<lambda>u. uid u = userId rec) (users db)
             in (db, Success (JObj [(''valid'', JBool True),
                   (''cardId'', case cardRow of None \<Rightarrow> JStr [] | Some c \<Rightarrow> JNum (int (cardId c))),
                   (''owner'', case owner of None \<Rightarrow> JNull
                      | Some u \<Rightarrow> JObj [(''id'', JNum (int (uid u))), (''name'', JStr (name u))])])
                   None)))"

text \<open>
  \<^verbatim>\<open>GET /id-card\<close> reads the tokens back: the active token is the one with
  \<^verbatim>\<open>usedAt: null, expiresAt: {gt: now}\<close>, and the recent verifications are the rows whose
  \<^verbatim>\<open>usedAt\<close> is set.
\<close>

definition activeToken :: "nat \<Rightarrow> int \<Rightarrow> database \<Rightarrow> token_row list" where
  "activeToken user now db =
     filter (\<lambda>r. userId r = user \<and> tokenType r = ''idcard'' \<and> usedAt r = None \<and> expiresAt r > now)
       (tokens_table db)"

definition recentVerifications :: "nat \<Rightarrow> database \<Rightarrow> token_row list" where
  "recentVerifications user db =
     filter (\<lambda>r. userId r = user \<and> tokenType r = ''idcard'' \<and> usedAt r \<noteq> None) (tokens_table db)"

section \<open>Signed tokens (utils/token and the login and verify-email handlers)\<close>

text \<open>
  The claims that the handlers write and read: the verification token carries
  \<^verbatim>\<open>userId\<close>, \<^verbatim>\<open>email\<close> and \<^verbatim>\<open>purpose\<close>; the session token carries \<^verbatim>\<open>data\<close> and
  \<^verbatim>\<open>exp\<close> (seconds). A field that a payload does not have is \<open>None\<close>.
\<close>

record session_data =
  sd_id :: nat
  sd_email :: string
  sd_name :: string
  sd_role :: string

record jwt_payload =
  p_userId :: "nat option"
  p_email :: "string option"
  purpose :: "string option"
  exp_claim :: "int option"
  p_data :: "session_data option"

text \<open>
  A compact token is its decoded payload and its signature segment; a string that does not
  decode is \<open>Malformed\<close>. \<^verbatim>\<open>sign\<close> and \<^verbatim>\<open>verify\<close> are the functions of the JWT library that
  the repository imports, which is not part of it: the keyed signature \<open>mac\<close> and the name
  \<open>expiredName\<close> of the error that \<^verbatim>\<open>verify\<close> raises for a token whose \<^verbatim>\<open>exp\<close> has passed are
  parameters. \<^verbatim>\<open>sign\<close> adds no claim of its own; \<^verbatim>\<open>verify\<close> checks \<^verbatim>\<open>exp\<close> only where the
  payload has one.
\<close>

datatype jwt = Malformed | Jwt jwt_payload string

datatype js_error = Thrown string

definition sign :: "(string \<Rightarrow> jwt_payload \<Rightarrow> string) \<Rightarrow> jwt_payload \<Rightarrow> string \<Rightarrow> jwt" where
  "sign mac payload secret = Jwt payload (mac secret payload)"

definition verify ::
  "(string \<Rightarrow> jwt_payload \<Rightarrow> string) \<Rightarrow> string \<Rightarrow> jwt \<Rightarrow> string \<Rightarrow> int \<Rightarrow> js_error + jwt_payload" where
  "verify mac expiredName t secret now =
     (case t of
        Malformed \<Rightarrow> Inl (Thrown ''JwtTokenInvalid'')
      | Jwt payload sg \<Rightarrow>
          if (case exp_claim payload of None \<Rightarrow> False | Some e \<Rightarrow> e \<noteq> 0 \<and> e \<le> now div 1000)
          then Inl (Thrown expiredName)
          else if sg = mac secret payload then Inr payload
          else Inl (Thrown ''JwtTokenSignatureMismatched''))"

text \<open>\<^verbatim>\<open>generateVerificationToken\<close> and \<^verbatim>\<open>verifyToken\<close> of utils/token.\<close>

definition EMAIL_VERIFICATION_EXPIRY :: string where
  "EMAIL_VERIFICATION_EXPIRY = ''24h''"

definition generateVerificationToken ::
  "(string \<Rightarrow> jwt_payload \<Rightarrow> string) \<Rightarrow> nat \<Rightarrow> string \<Rightarrow> string \<Rightarrow> jwt" where
  "generateVerificationToken mac user em secret =
     sign mac \<lparr>p_userId = Some user, p_email = Some em, purpose = Some ''email-verification'',
                exp_claim = None, p_data = None\<rparr> secret"

definition verifyToken ::
  "(string \<Rightarrow> jwt_payload \<Rightarrow> string) \<Rightarrow> string \<Rightarrow> jwt \<Rightarrow> string \<Rightarrow> int
     \<Rightarrow> js_error + (jwt_payload \<times> bool)" where
  "verifyToken mac expiredName t secret now =
     (case verify mac expiredName t secret now of
        Inr payload \<Rightarrow> Inr (payload, False)
      | Inl (Thrown nm) \<Rightarrow>
          if nm = ''JWTExpired'' then
            (case t of
               Jwt decoded sg \<Rightarrow> Inr (decoded, True)
             | Malformed \<Rightarrow> Inl (Thrown ''Error''))
          else Inl (Thrown nm))"

text \<open>The session token that \<^verbatim>\<open>POST /auth/login\<close> signs for a user it has authenticated.\<close>

definition login_token ::
  "(string \<Rightarrow> jwt_payload \<Rightarrow> string) \<Rightarrow> user_row \<Rightarrow> string \<Rightarrow> int \<Rightarrow> jwt" where
  "login_token mac user secret now =
     sign mac \<lparr>p_userId = None, p_email = None, purpose = None,
                exp_claim = Some (now div 1000 + 60 * 60),
                p_data = Some \<lparr>sd_id = uid user, sd_email = email user, sd_name = name user,
                                sd_role = role user\<rparr>\<rparr> secret"

text \<open>
  \<^verbatim>\<open>GET /auth/verify-email\<close>. The query parameter is \<open>None\<close> when it is missing or empty.
  A payload without \<^verbatim>\<open>userId\<close> makes the lookup reject, which the handler catches.
\<close>

definition verify_email ::
  "(string \<Rightarrow> jwt_payload \<Rightarrow> string) \<Rightarrow> string \<Rightarrow> env \<Rightarrow> jwt option \<Rightarrow> int \<Rightarrow> database
     \<Rightarrow> database \<times> response" where
  "verify_email mac expiredName e param now db =
     (case param of
        None \<Rightarrow> (db, Error ''Verification token is required'' (Some 400))
      | Some t \<Rightarrow>
          (case verifyToken mac expiredName t (JWT_SECRET e) now of
             Inl err \<Rightarrow>
               (db, Error ''Invalid or expired verification link. Please request a new one.'' (Some 400))
           | Inr (payload, expired) \<Rightarrow>
               if purpose payload \<noteq> Some ''email-verification'' then
                 (db, Error ''Invalid verification token'' (Some 400))
               else if expired then
                 (db, Error ''Verification link has expired. Please request a new one.'' (Some 400))
               else
                 (case p_userId payload of
                    None \<Rightarrow>
                      (db, Error ''Invalid or expired verification link. Please request a new one.''
                             (Some 400))
                  | Some i \<Rightarrow>
                      (case find (\<lambda>u. uid u = i) (users db) of
                         None \<Rightarrow> (db, Error ''User not found'' (Some 404))
                       | Some user \<Rightarrow>
                           if Some (email user) \<noteq> p_email payload then
                             (db, Error ''Invalid verification token'' (Some 400))
                           else if emailVerified user \<noteq> None then
                             (db, Redirect ''/email-verified?status=already-verified'')
                           else
                             (db\<lparr>users := map (\<lambda>u. if uid u = uid user
                                                   then u\<lparr>emailVerified := Some now\<rparr> else u) (users db)\<rparr>,
                              Redirect ''/email-verified?status=success'')))))"

section \<open>Concrete inputs\<close>

text \<open>
  The concrete runs below use one small database and simple stand-ins for the digest, the
  password hash and the keyed signature; the general theorems hold for every such function.
\<close>

definition ex_digest :: "string \<Rightarrow> string" where
  "ex_digest s = ''sha256:'' @ s"

definition ex_hashSync :: "string \<Rightarrow> string" where
  "ex_hashSync p = ''$2a$08$'' @ p"

definition ex_mac :: "string \<Rightarrow> jwt_payload \<Rightarrow> string" where
  "ex_mac secret payload = secret @ (case purpose payload of None \<Rightarrow> ''session'' | Some p \<Rightarrow> p)"

definition ex_user :: user_row where
  "ex_user = \<lparr>uid = 1, email = ''ann@example.com'', name = ''Ann'', password = ''$2a$08$old'',
              role = ''USER'', emailVerified = None\<rparr>"

definition ex_db :: database where
  "ex_db = \<lparr>users = [ex_user], tokens_table = [], nextTokenId = 1,
            idCards = [\<lparr>cardId = 7, cardUserId = 1, imageUrl = None, publicId = None\<rparr>]\<rparr>"

definition ex_env :: env where
  "ex_env = \<lparr>ENVIRONMENT = Some ''production'', DEV_MODE = None, JWT_SECRET = ''s3cret''\<rparr>"

definition ex_reset_body :: "string \<Rightarrow> reset_body option" where
  "ex_reset_body t =
     Some \<lparr>token = Some t, newPassword = Some ''NewPass1!'', confirmPassword = Some ''NewPass1!''\<rparr>"

section \<open>Properties of the rate limiter\<close>

lemma ceil_div_1000_pos: "0 < d \<Longrightarrow> 1 \<le> ceil_div_1000 d"
  unfolding ceil_div_1000_def by linarith

lemma rateLimit_reset:
  "bs key = None \<or> (\<exists>b. bs key = Some b \<and> resetAt b \<le> now) \<Longrightarrow>
   rateLimit w mx key now bs =
     \<lparr>rl_buckets = bs(key \<mapsto> \<lparr>tokens = mx - 1, resetAt = now + w\<rparr>), rl_headers = [], rl_decision = Next\<rparr>"
  by (auto simp: rateLimit_def Let_def split: option.splits)

lemma rateLimit_decrement:
  "bs key = Some b \<Longrightarrow> now < resetAt b \<Longrightarrow> 0 < tokens b \<Longrightarrow>
   rl_buckets (rateLimit w mx key now bs) = bs(key \<mapsto> b\<lparr>tokens := tokens b - 1\<rparr>) \<and>
   rl_decision (rateLimit w mx key now bs) = Next"
  by (simp add: rateLimit_def Let_def)

lemma rateLimit_deny:
  "bs key = Some b \<Longrightarrow> now < resetAt b \<Longrightarrow> tokens b \<le> 0 \<Longrightarrow>
   rl_buckets (rateLimit w mx key now bs) = bs \<and>
   rl_decision (rateLimit w mx key now bs) = Limited (ceil_div_1000 (resetAt b - now)) \<and>
   1 \<le> ceil_div_1000 (resetAt b - now)"
  using ceil_div_1000_pos[of "resetAt b - now"]
  by (simp add: rateLimit_def Let_def max_def)

lemma requests_in_window:
  "bs key = Some \<lparr>tokens = k, resetAt = R\<rparr> \<Longrightarrow> \<forall>t\<in>set ts. t < R \<Longrightarrow> int (length ts) \<le> k \<Longrightarrow>
   requests w mx key ts bs =
     (replicate (length ts) Next, bs(key \<mapsto> \<lparr>tokens = k - int (length ts), resetAt = R\<rparr>))"
proof (induction ts arbitrary: bs k)
  case Nil
  then show ?case by (simp add: fun_upd_idem)
next
  case (Cons t ts)
  let ?b = "\<lparr>tokens = k, resetAt = R\<rparr>"
  have step: "rl_buckets (rateLimit w mx key t bs) = bs(key \<mapsto> \<lparr>tokens = k - 1, resetAt = R\<rparr>)"
             "rl_decision (rateLimit w mx key t bs) = Next"
    using rateLimit_decrement[of bs key ?b t w mx] Cons.prems by auto
  have eq: "k - 1 - int (length ts) = k - int (length (t # ts))" by simp
  have "requests w mx key ts (bs(key \<mapsto> \<lparr>tokens = k - 1, resetAt = R\<rparr>)) =
        (replicate (length ts) Next,
         (bs(key \<mapsto> \<lparr>tokens = k - 1, resetAt = R\<rparr>))(key \<mapsto> \<lparr>tokens = k - 1 - int (length ts), resetAt = R\<rparr>))"
    using Cons.prems by (intro Cons.IH) auto
  then have "requests w mx key ts (bs(key \<mapsto> \<lparr>tokens = k - 1, resetAt = R\<rparr>)) =
        (replicate (length ts) Next, bs(key \<mapsto> \<lparr>tokens = k - int (length (t # ts)), resetAt = R\<rparr>))"
    unfolding eq by simp
  then show ?case using step by (simp only: requests.simps Let_def split_conv replicate_Suc length_Cons)
qed

lemma requests_window_full:
  assumes "1 \<le> mx"
    and "bs key = None \<or> (\<exists>b. bs key = Some b \<and> resetAt b \<le> t0)"
    and "int (length ts) = mx - 1"
    and "\<forall>u\<in>set ts. t0 \<le> u \<and> u < t0 + w"
  shows "requests w mx key (t0 # ts) bs =
     (replicate (nat mx) Next, bs(key \<mapsto> \<lparr>tokens = 0, resetAt = t0 + w\<rparr>))"
proof -
  let ?bs1 = "bs(key \<mapsto> \<lparr>tokens = mx - 1, resetAt = t0 + w\<rparr>)"
  have r: "rateLimit w mx key t0 bs = \<lparr>rl_buckets = ?bs1, rl_headers = [], rl_decision = Next\<rparr>"
    using assms(2) by (rule rateLimit_reset)
  have "requests w mx key ts ?bs1 =
      (replicate (length ts) Next, ?bs1(key \<mapsto> \<lparr>tokens = (mx - 1) - int (length ts), resetAt = t0 + w\<rparr>))"
    using assms by (intro requests_in_window) auto
  moreover have "Suc (length ts) = nat mx" using assms(1,3) by linarith
  ultimately show ?thesis using r assms(3)
    by (simp add: Let_def flip: replicate_Suc)
qed

text \<open>
  C8. The check follows the fixed-window rule. On the first request for a key, or once
  \<open>now \<ge> resetAt\<close>, the bucket becomes \<open>max - 1\<close> tokens with the window ending at
  \<open>now + windowMs\<close>, and the request passes. Inside a window a request decrements the
  tokens and passes while tokens remain; with none left it is denied, the bucket is
  unchanged, and the reported retry-after is \<open>ceil((resetAt - now) / 1000)\<close>, at least 1
  (the source's \<^verbatim>\<open>Math.max(1, ...)\<close> never takes effect there). For a quota \<open>max \<ge> 1\<close>:
  of \<open>max + 1\<close> requests inside one window, the first \<open>max\<close> pass and the last is denied.
\<close>

theorem rateLimit_fixed_window:
  "(bs key = None \<or> (\<exists>b. bs key = Some b \<and> resetAt b \<le> now) \<longrightarrow>
      rl_buckets (rateLimit w mx key now bs) = bs(key \<mapsto> \<lparr>tokens = mx - 1, resetAt = now + w\<rparr>) \<and>
      rl_decision (rateLimit w mx key now bs) = Next) \<and>
   (bs key = Some b \<and> now < resetAt b \<and> 0 < tokens b \<longrightarrow>
      rl_buckets (rateLimit w mx key now bs) = bs(key \<mapsto> b\<lparr>tokens := tokens b - 1\<rparr>) \<and>
      rl_decision (rateLimit w mx key now bs) = Next) \<and>
   (bs key = Some b \<and> now < resetAt b \<and> tokens b \<le> 0 \<longrightarrow>
      rl_buckets (rateLimit w mx key now bs) = bs \<and>
      rl_decision (rateLimit w mx key now bs) = Limited (ceil_div_1000 (resetAt b - now)) \<and>
      1 \<le> ceil_div_1000 (resetAt b - now)) \<and>
   (1 \<le> mx \<and> (bs key = None \<or> (\<exists>b. bs key = Some b \<and> resetAt b \<le> t0)) \<and>
    int (length ts) = mx - 1 \<and> (\<forall>u\<in>set ts. t0 \<le> u \<and> u < t0 + w) \<and> t0 \<le> t \<and> t < t0 + w \<longrightarrow>
      fst (requests w mx key (t0 # ts) bs) = replicate (nat mx) Next \<and>
      rl_decision (rateLimit w mx key t (snd (requests w mx key (t0 # ts) bs))) =
        Limited (ceil_div_1000 (t0 + w - t)) \<and>
      1 \<le> ceil_div_1000 (t0 + w - t))"
proof (intro conjI impI)
  assume "bs key = None \<or> (\<exists>b. bs key = Some b \<and> resetAt b \<le> now)"
  then have r: "rateLimit w mx key now bs =
     \<lparr>rl_buckets = bs(key \<mapsto> \<lparr>tokens = mx - 1, resetAt = now + w\<rparr>), rl_headers = [], rl_decision = Next\<rparr>"
    by (rule rateLimit_reset)
  show "rl_buckets (rateLimit w mx key now bs) = bs(key \<mapsto> \<lparr>tokens = mx - 1, resetAt = now + w\<rparr>)"
    by (simp add: r)
  show "rl_decision (rateLimit w mx key now bs) = Next"
    by (simp add: r)
next
  assume a: "bs key = Some b \<and> now < resetAt b \<and> 0 < tokens b"
  then show "rl_buckets (rateLimit w mx key now bs) = bs(key \<mapsto> b\<lparr>tokens := tokens b - 1\<rparr>)"
    using rateLimit_decrement[of bs key b now w mx] by simp
  from a show "rl_decision (rateLimit w mx key now bs) = Next"
    using rateLimit_decrement[of bs key b now w mx] by simp
next
  assume a: "bs key = Some b \<and> now < resetAt b \<and> tokens b \<le> 0"
  then show "rl_buckets (rateLimit w mx key now bs) = bs"
    using rateLimit_deny[of bs key b now w mx] by simp
  from a show "rl_decision (rateLimit w mx key now bs) = Limited (ceil_div_1000 (resetAt b - now))"
    using rateLimit_deny[of bs key b now w mx] by simp
  from a show "1 \<le> ceil_div_1000 (resetAt b - now)"
    using rateLimit_deny[of bs key b now w mx] by simp
next
  assume a: "1 \<le> mx \<and> (bs key = None \<or> (\<exists>b. bs key = Some b \<and> resetAt b \<le> t0)) \<and>
    int (length ts) = mx - 1 \<and> (\<forall>u\<in>set ts. t0 \<le> u \<and> u < t0 + w) \<and> t0 \<le> t \<and> t < t0 + w"
  then have run: "requests w mx key (t0 # ts) bs =
     (replicate (nat mx) Next, bs(key \<mapsto> \<lparr>tokens = 0, resetAt = t0 + w\<rparr>))"
    by (intro requests_window_full) simp_all
  show "fst (requests w mx key (t0 # ts) bs) = replicate (nat mx) Next"
    by (simp only: run fst_conv)
  have d: "rl_decision (rateLimit w mx key t (bs(key \<mapsto> \<lparr>tokens = 0, resetAt = t0 + w\<rparr>))) =
        Limited (ceil_div_1000 (t0 + w - t)) \<and> 1 \<le> ceil_div_1000 (t0 + w - t)"
    using rateLimit_deny[of "bs(key \<mapsto> \<lparr>tokens = 0, resetAt = t0 + w\<rparr>)" key
            "\<lparr>tokens = 0, resetAt = t0 + w\<rparr>" t w mx] a by simp
  show "rl_decision (rateLimit w mx key t (snd (requests w mx key (t0 # ts) bs))) =
        Limited (ceil_div_1000 (t0 + w - t))"
    using d by (simp only: run snd_conv)
  show "1 \<le> ceil_div_1000 (t0 + w - t)" using d by simp
qed

theorem rateLimit_fixed_window_witness:
  "rl_decision (rateLimit 60000 5 ''ip:/login'' 0 Map.empty) = Next \<and>
   rl_buckets (rateLimit 60000 5 ''ip:/login'' 10
      [''ip:/login'' \<mapsto> \<lparr>tokens = 4, resetAt = 60000\<rparr>]) ''ip:/login''
     = Some \<lparr>tokens = 3, resetAt = 60000\<rparr> \<and>
   rl_decision (rateLimit 60000 5 ''ip:/login'' 10
      [''ip:/login'' \<mapsto> \<lparr>tokens = 0, resetAt = 60000\<rparr>]) = Limited 60 \<and>
   fst (requests 60000 5 ''ip:/login'' [0, 1000, 2000, 3000, 4000] Map.empty) =
      [Next, Next, Next, Next, Next] \<and>
   rl_decision (rateLimit 60000 5 ''ip:/login'' 5000
      (snd (requests 60000 5 ''ip:/login'' [0, 1000, 2000, 3000, 4000] Map.empty))) = Limited 55"
  using rateLimit_fixed_window [of Map.empty "''ip:/login''" 0 60000 5 undefined 0 "[]" 0]
    rateLimit_fixed_window [of "[''ip:/login'' \<mapsto> \<lparr>tokens = 4, resetAt = 60000\<rparr>]" "''ip:/login''" 10
       60000 5 "\<lparr>tokens = 4, resetAt = 60000\<rparr>" 0 "[]" 0]
    rateLimit_fixed_window [of "[''ip:/login'' \<mapsto> \<lparr>tokens = 0, resetAt = 60000\<rparr>]" "''ip:/login''" 10
       60000 5 "\<lparr>tokens = 0, resetAt = 60000\<rparr>" 0 "[]" 0]
    rateLimit_fixed_window [of Map.empty "''ip:/login''" 0 60000 5 undefined 0 "[1000, 2000, 3000, 4000]" 5000]
  by (simp add: ceil_div_1000_def rateLimit_def Let_def)

text \<open>
  C9. The window-opening branch sets no header: the first request for a key, and the first
  request after a window has ended, pass on without limit, remaining or reset metadata,
  unlike the two other branches.
\<close>

theorem rateLimit_first_request_no_headers:
  "rl_headers (rateLimit windowMs mx key now Map.empty) = [] \<and>
   rl_decision (rateLimit windowMs mx key now Map.empty) = Next \<and>
   rl_headers (rateLimit 60000 5 ''ip:/login'' 60000
      [''ip:/login'' \<mapsto> \<lparr>tokens = 2, resetAt = 60000\<rparr>]) = []"
  by (simp add: rateLimit_def)

section \<open>Properties of the opaque tokens\<close>

lemmas ex_defs = ex_digest_def ex_hashSync_def ex_mac_def ex_user_def ex_db_def ex_env_def
  ex_reset_body_def

lemmas db_defs = tokens_create_def tokens_findFirst_def users_update_password_def
  tokens_update_usedAt_def truthy_def ok_body_def

subsection \<open>Shared facts about issuing\<close>

lemma forgot_password_issue:
  "find (\<lambda>u. email u = toLowerCase em) (users db) = Some user \<Longrightarrow> toLowerCase em \<noteq> [] \<Longrightarrow>
   fst (forgot_password sha256Hex toLowerCase e thr (Some (Some em)) raw now db) =
     tokens_create (uid user) ''reset'' (sha256Hex raw) (now + 1800000) now db"
  by (simp add: forgot_password_def Let_def)

lemma id_card_generate_mint:
  "u \<noteq> 0 \<Longrightarrow> find (\<lambda>c. cardId c = cid \<and> cardUserId c = u) (idCards db) = Some c \<Longrightarrow>
   \<not> (truthy (imageUrl c) \<and> truthy (publicId c)) \<Longrightarrow>
   id_card_generate sha256Hex (Some u) (Parsed cid) raw now db =
     (tokens_create u ''idcard'' (sha256Hex raw) (now + 600000) now db,
      Success (JObj [(''token'', JStr raw), (''expiresAt'', JDate (now + 600000))]) None)"
  by (simp add: id_card_generate_def Let_def)

lemma id_card_generate_stored:
  "u \<noteq> 0 \<Longrightarrow> find (\<lambda>c. cardId c = cid \<and> cardUserId c = u) (idCards db) = Some c \<Longrightarrow>
   imageUrl c = Some url \<Longrightarrow> publicId c = Some pid \<Longrightarrow> url \<noteq> [] \<Longrightarrow> pid \<noteq> [] \<Longrightarrow>
   id_card_generate sha256Hex (Some u) (Parsed cid) raw now db =
     (db, Success (JObj [(''url'', JStr url), (''publicId'', JStr pid)]) None)"
  by (simp add: id_card_generate_def truthy_def)

lemma forgot_password_digest_only:
  "sha256Hex raw = sha256Hex raw' \<Longrightarrow>
   fst (forgot_password sha256Hex toLowerCase e thr body raw now db) =
   fst (forgot_password sha256Hex toLowerCase e thr body raw' now db)"
  by (simp add: forgot_password_def Let_def split: option.split)

lemma id_card_generate_digest_only:
  "sha256Hex raw = sha256Hex raw' \<Longrightarrow>
   fst (id_card_generate sha256Hex auth req raw now db) =
   fst (id_card_generate sha256Hex auth req raw' now db)"
  by (simp add: id_card_generate_def Let_def split: option.split gen_request.split)

lemma id_card_generate_changes:
  "fst (id_card_generate sha256Hex auth req raw now db) \<noteq> db \<Longrightarrow>
   \<exists>u cid c. auth = Some u \<and> u \<noteq> 0 \<and> req = Parsed cid \<and>
      find (\<lambda>c. cardId c = cid \<and> cardUserId c = u) (idCards db) = Some c \<and>
      \<not> (truthy (imageUrl c) \<and> truthy (publicId c))"
  by (auto simp: id_card_generate_def Let_def split: option.splits gen_request.splits if_splits)

subsection \<open>Redeeming\<close>

text \<open>
  C1. Redeeming an issued token succeeds exactly once. The id-card verification reads the
  token row and never writes it: the database after the call is the database before it,
  so a second verification of the same raw token gives the same success, the row keeps
  \<^verbatim>\<open>usedAt = null\<close>, and the list of recent verifications (the rows with \<^verbatim>\<open>usedAt\<close> set)
  stays empty. The password-reset path does mark the row, and there the second redemption
  is refused with 410.
\<close>

theorem id_card_verify_not_single_use:
  "fst (id_card_verify sha256Hex tok now db) = db \<and>
   (let db1 = fst (id_card_generate ex_digest (Some 1) (Parsed 7) ''c0ffee'' 0 ex_db);
        first = id_card_verify ex_digest ''c0ffee'' 1000 db1;
        second = id_card_verify ex_digest ''c0ffee'' 2000 (fst first)
    in snd first = Success (JObj [(''valid'', JBool True), (''cardId'', JNum 7),
                    (''owner'', JObj [(''id'', JNum 1), (''name'', JStr ''Ann'')])]) None \<and>
       snd second = snd first \<and>
       map usedAt (tokens_table (fst second)) = [None] \<and>
       recentVerifications 1 (fst second) = []) \<and>
   (let db2 = fst (forgot_password ex_digest ascii_toLowerCase ex_env False (Some (Some ''ann@example.com''))
                     ''beef'' 0 ex_db);
        first = reset_password ex_digest ex_hashSync NoFault (ex_reset_body ''beef'') 1000 db2;
        second = reset_password ex_digest ex_hashSync NoFault (ex_reset_body ''beef'') 2000 (fst first)
    in snd first = Success (JObj [(''ok'', JBool True)]) None \<and>
       map usedAt (tokens_table (fst first)) = [Some 1000] \<and>
       snd second = Error ''Token expired or invalid'' (Some 410))"
proof (intro conjI)
  show "fst (id_card_verify sha256Hex tok now db) = db"
    by (simp add: id_card_verify_def Let_def split: option.split)
  show "let db1 = fst (id_card_generate ex_digest (Some 1) (Parsed 7) ''c0ffee'' 0 ex_db);
        first = id_card_verify ex_digest ''c0ffee'' 1000 db1;
        second = id_card_verify ex_digest ''c0ffee'' 2000 (fst first)
    in snd first = Success (JObj [(''valid'', JBool True), (''cardId'', JNum 7),
                    (''owner'', JObj [(''id'', JNum 1), (''name'', JStr ''Ann'')])]) None \<and>
       snd second = snd first \<and>
       map usedAt (tokens_table (fst second)) = [None] \<and>
       recentVerifications 1 (fst second) = []"
    by (simp add: id_card_generate_def id_card_verify_def recentVerifications_def Let_def
          ex_defs db_defs)
  show "let db2 = fst (forgot_password ex_digest ascii_toLowerCase ex_env False (Some (Some ''ann@example.com''))
                     ''beef'' 0 ex_db);
        first = reset_password ex_digest ex_hashSync NoFault (ex_reset_body ''beef'') 1000 db2;
        second = reset_password ex_digest ex_hashSync NoFault (ex_reset_body ''beef'') 2000 (fst first)
    in snd first = Success (JObj [(''ok'', JBool True)]) None \<and>
       map usedAt (tokens_table (fst first)) = [Some 1000] \<and>
       snd second = Error ''Token expired or invalid'' (Some 410)"
    by (simp add: forgot_password_def reset_password_def ascii_toLowerCase_def Let_def ex_defs db_defs)
qed

text \<open>
  C4. A stored record is accepted if and only if \<^verbatim>\<open>usedAt\<close> is null and
  \<open>expiresAt > now\<close>. Both redeeming handlers refuse on \<open>expiresAt < now\<close>, so at the
  instant \<open>now = expiresAt\<close> a token is still accepted: the reset token issued at 0 with
  expiry 1800000 resets the password at 1800000 (and is refused one millisecond later),
  and the id-card token with expiry 600000 verifies at 600000, an instant at which the
  listing of the same controller (\<open>expiresAt > now\<close>) no longer counts it as active.
\<close>

theorem redeem_accepts_at_expiry_instant:
  "(let db1 = fst (forgot_password ex_digest ascii_toLowerCase ex_env False (Some (Some ''ann@example.com''))
                     ''beef'' 0 ex_db)
    in map expiresAt (tokens_table db1) = [1800000] \<and>
       snd (reset_password ex_digest ex_hashSync NoFault (ex_reset_body ''beef'') 1800000 db1) =
         Success (JObj [(''ok'', JBool True)]) None \<and>
       snd (reset_password ex_digest ex_hashSync NoFault (ex_reset_body ''beef'') 1800001 db1) =
         Error ''Token expired or invalid'' (Some 410)) \<and>
   (let db2 = fst (id_card_generate ex_digest (Some 1) (Parsed 7) ''c0ffee'' 0 ex_db)
    in map expiresAt (tokens_table db2) = [600000] \<and>
       snd (id_card_verify ex_digest ''c0ffee'' 600000 db2) =
         Success (JObj [(''valid'', JBool True), (''cardId'', JNum 7),
                    (''owner'', JObj [(''id'', JNum 1), (''name'', JStr ''Ann'')])]) None \<and>
       activeToken 1 600000 db2 = [])"
  by (simp add: forgot_password_def reset_password_def id_card_generate_def id_card_verify_def
        activeToken_def ascii_toLowerCase_def Let_def ex_defs db_defs)

text \<open>
  The run that the following statement is false at. It says: in the password-reset consume
  flow the token is burned while the password is unchanged if the password update fails,
  and no outcome has the password changed with the token unused. With the marking failing
  after the update, the password is the new one and the row is unused; with the update
  failing, the row is unused as well.
\<close>

theorem reset_password_unmarked_counterexample:
  "(let db1 = fst (forgot_password ex_digest ascii_toLowerCase ex_env False (Some (Some ''ann@example.com''))
                     ''beef'' 0 ex_db);
        mark_fails = reset_password ex_digest ex_hashSync TokensUpdateFails
                       (ex_reset_body ''beef'') 1000 db1;
        update_fails = reset_password ex_digest ex_hashSync UsersUpdateFails
                       (ex_reset_body ''beef'') 1000 db1
    in map password (users db1) = [''$2a$08$old''] \<and>
       map password (users (fst mark_fails)) = [''$2a$08$NewPass1!''] \<and>
       map usedAt (tokens_table (fst mark_fails)) = [None] \<and>
       snd mark_fails = Error ''Failed to reset password'' (Some 400) \<and>
       map password (users (fst update_fails)) = [''$2a$08$old''] \<and>
       map usedAt (tokens_table (fst update_fails)) = [None] \<and>
       snd update_fails = Error ''Failed to reset password'' (Some 400))"
  by (simp add: forgot_password_def reset_password_def ascii_toLowerCase_def Let_def ex_defs db_defs)

lemma users_update_password_tokens:
  "users_update_password i h db = Some db1 \<Longrightarrow>
     tokens_table db1 = tokens_table db \<and>
     users db1 = map (\<lambda>u. if uid u = i then u\<lparr>password := h\<rparr> else u) (users db)"
  by (auto simp: users_update_password_def split: if_splits)

lemma tokens_update_usedAt_rows:
  "tokens_update_usedAt i now db1 = Some db2 \<Longrightarrow>
     users db2 = users db1 \<and>
     tokens_table db2 = map (\<lambda>r. if tokenId r = i then r\<lparr>usedAt := Some now\<rparr> else r) (tokens_table db1)"
  by (auto simp: tokens_update_usedAt_def split: if_splits)

lemma tokens_findFirst_member:
  "tokens_findFirst ty h db = Some rec \<Longrightarrow> tokenId rec \<in> set (map tokenId (tokens_table db))"
  by (auto simp: tokens_findFirst_def find_Some_iff)

lemma reset_password_writes:
  assumes "body = Some b" and "token b = Some t" and "newPassword b = Some p"
    and "confirmPassword b = Some p" and "t \<noteq> []" and "p \<noteq> []"
    and "tokens_findFirst ''reset'' (sha256Hex t) db = Some rec" and "\<not> expiresAt rec < now"
  shows "reset_password sha256Hex hashSync fault body now db =
     (if fault = UsersUpdateFails then (db, Error ''Failed to reset password'' (Some 400))
      else case users_update_password (userId rec) (hashSync p) db of
        None \<Rightarrow> (db, Error ''Failed to reset password'' (Some 400))
      | Some db1 \<Rightarrow>
          if fault = TokensUpdateFails then (db1, Error ''Failed to reset password'' (Some 400))
          else case tokens_update_usedAt (tokenId rec) now db1 of
            None \<Rightarrow> (db1, Error ''Failed to reset password'' (Some 400))
          | Some db2 \<Rightarrow> (db2, Success (JObj ok_body) None))"
  using assms by (simp add: reset_password_def truthy_def Let_def split: option.split)

text \<open>
  C3 (as the code has it). The handler updates the password first and marks the token
  second, with nothing around the two writes that undoes the first. For a request that
  reaches the writes (well-formed body, matching passwords, an unused reset row found for
  the digest and not expired):
  if the password update fails, by a fault or because the owner's row is gone, the
  database is unchanged (the token stays unused) and the answer is the 400
  \<^verbatim>\<open>Failed to reset password\<close>;
  if the update is applied and the marking fails, the database is the old one with the
  owner's password replaced by the new hash, the token rows are the old ones (the token is
  unused), and the answer is the same 400;
  if neither fails, the password is replaced, the redeemed row is marked at \<open>now\<close> and the
  answer is the success one.
  For every request: a failing password update leaves the database unchanged, and a token
  row changes only in a run whose password update was applied and whose answer is the
  success one. So no outcome has the token burned and the password unchanged.
\<close>

theorem reset_password_marks_after_update:
  "(body = Some b \<and> token b = Some t \<and> newPassword b = Some p \<and> confirmPassword b = Some p \<and>
    t \<noteq> [] \<and> p \<noteq> [] \<and> tokens_findFirst ''reset'' (sha256Hex t) db = Some rec \<and>
    \<not> expiresAt rec < now \<longrightarrow>
      (fault = UsersUpdateFails \<or> userId rec \<notin> set (map uid (users db)) \<longrightarrow>
         reset_password sha256Hex hashSync fault body now db =
           (db, Error ''Failed to reset password'' (Some 400))) \<and>
      (fault = TokensUpdateFails \<and> userId rec \<in> set (map uid (users db)) \<longrightarrow>
         reset_password sha256Hex hashSync fault body now db =
           (db\<lparr>users := map (\<lambda>u. if uid u = userId rec then u\<lparr>password := hashSync p\<rparr> else u)
                           (users db)\<rparr>,
            Error ''Failed to reset password'' (Some 400))) \<and>
      (fault = NoFault \<and> userId rec \<in> set (map uid (users db)) \<longrightarrow>
         reset_password sha256Hex hashSync fault body now db =
           (db\<lparr>users := map (\<lambda>u. if uid u = userId rec then u\<lparr>password := hashSync p\<rparr> else u)
                           (users db),
               tokens_table := map (\<lambda>r. if tokenId r = tokenId rec then r\<lparr>usedAt := Some now\<rparr>
                                         else r) (tokens_table db)\<rparr>,
            Success (JObj ok_body) None))) \<and>
   fst (reset_password sha256Hex hashSync UsersUpdateFails body now db) = db \<and>
   snd (reset_password sha256Hex hashSync UsersUpdateFails body now db) \<noteq> Success (JObj ok_body) None \<and>
   (tokens_table (fst (reset_password sha256Hex hashSync fault body now db)) \<noteq> tokens_table db \<longrightarrow>
      snd (reset_password sha256Hex hashSync fault body now db) = Success (JObj ok_body) None \<and>
      (\<exists>b t p rec. body = Some b \<and> token b = Some t \<and> newPassword b = Some p \<and>
         tokens_findFirst ''reset'' (sha256Hex t) db = Some rec \<and>
         users (fst (reset_password sha256Hex hashSync fault body now db)) =
           map (\<lambda>u. if uid u = userId rec then u\<lparr>password := hashSync p\<rparr> else u) (users db) \<and>
         tokens_table (fst (reset_password sha256Hex hashSync fault body now db)) =
           map (\<lambda>r. if tokenId r = tokenId rec then r\<lparr>usedAt := Some now\<rparr> else r) (tokens_table db)))"
proof (intro conjI impI)
  assume pre: "body = Some b \<and> token b = Some t \<and> newPassword b = Some p \<and>
    confirmPassword b = Some p \<and> t \<noteq> [] \<and> p \<noteq> [] \<and>
    tokens_findFirst ''reset'' (sha256Hex t) db = Some rec \<and> \<not> expiresAt rec < now"
  then have w: "reset_password sha256Hex hashSync fault body now db =
     (if fault = UsersUpdateFails then (db, Error ''Failed to reset password'' (Some 400))
      else case users_update_password (userId rec) (hashSync p) db of
        None \<Rightarrow> (db, Error ''Failed to reset password'' (Some 400))
      | Some db1 \<Rightarrow>
          if fault = TokensUpdateFails then (db1, Error ''Failed to reset password'' (Some 400))
          else case tokens_update_usedAt (tokenId rec) now db1 of
            None \<Rightarrow> (db1, Error ''Failed to reset password'' (Some 400))
          | Some db2 \<Rightarrow> (db2, Success (JObj ok_body) None))"
    by (intro reset_password_writes[where b = b and t = t]) simp_all
  have mem: "tokenId rec \<in> set (map tokenId (tokens_table db))"
    using pre tokens_findFirst_member by blast
  {
    assume "fault = UsersUpdateFails \<or> userId rec \<notin> set (map uid (users db))"
    then show "reset_password sha256Hex hashSync fault body now db =
           (db, Error ''Failed to reset password'' (Some 400))"
      unfolding w by (auto simp: users_update_password_def)
  }
  {
    assume "fault = TokensUpdateFails \<and> userId rec \<in> set (map uid (users db))"
    then show "reset_password sha256Hex hashSync fault body now db =
           (db\<lparr>users := map (\<lambda>u. if uid u = userId rec then u\<lparr>password := hashSync p\<rparr> else u)
                           (users db)\<rparr>,
            Error ''Failed to reset password'' (Some 400))"
      unfolding w by (simp add: users_update_password_def)
  }
  {
    assume "fault = NoFault \<and> userId rec \<in> set (map uid (users db))"
    then show "reset_password sha256Hex hashSync fault body now db =
           (db\<lparr>users := map (\<lambda>u. if uid u = userId rec then u\<lparr>password := hashSync p\<rparr> else u)
                           (users db),
               tokens_table := map (\<lambda>r. if tokenId r = tokenId rec then r\<lparr>usedAt := Some now\<rparr>
                                         else r) (tokens_table db)\<rparr>,
            Success (JObj ok_body) None)"
      unfolding w using mem by (simp add: users_update_password_def tokens_update_usedAt_def)
  }
next
  show "fst (reset_password sha256Hex hashSync UsersUpdateFails body now db) = db"
    by (simp add: reset_password_def Let_def split: option.split)
  show "snd (reset_password sha256Hex hashSync UsersUpdateFails body now db) \<noteq> Success (JObj ok_body) None"
    by (simp add: reset_password_def Let_def split: option.split)
next
  let ?r = "reset_password sha256Hex hashSync fault body now db"
  assume ch: "tokens_table (fst ?r) \<noteq> tokens_table db"
  then obtain b where b: "body = Some b"
    by (cases body) (simp_all add: reset_password_def)
  have tr: "truthy (token b)" "truthy (newPassword b)" "truthy (confirmPassword b)"
    and eq: "newPassword b = confirmPassword b"
    using ch b by (auto simp: reset_password_def split: if_splits)
  then obtain t p where t: "token b = Some t" and p: "newPassword b = Some p"
    by (auto simp: truthy_def split: option.splits)
  have cp: "confirmPassword b = Some p" using eq p by simp
  have tt: "truthy (Some t)" "truthy (Some p)" using tr t p by simp_all
  note pre = b t p cp tt
  obtain rec where rec: "tokens_findFirst ''reset'' (sha256Hex t) db = Some rec"
    using ch pre by (cases "tokens_findFirst ''reset'' (sha256Hex t) db")
      (auto simp: reset_password_def)
  have ne: "\<not> expiresAt rec < now"
    using ch pre rec by (auto simp: reset_password_def split: if_splits)
  have nf: "fault \<noteq> UsersUpdateFails"
    using ch pre rec ne by (auto simp: reset_password_def Let_def)
  obtain db1 where db1: "users_update_password (userId rec) (hashSync p) db = Some db1"
    using ch pre rec ne nf
    by (cases "users_update_password (userId rec) (hashSync p) db")
      (auto simp: reset_password_def Let_def)
  note u = users_update_password_tokens[OF db1]
  have nf2: "fault \<noteq> TokensUpdateFails"
    using ch pre rec ne nf db1 u by (auto simp: reset_password_def Let_def)
  obtain db2 where db2: "tokens_update_usedAt (tokenId rec) now db1 = Some db2"
    using ch pre rec ne nf nf2 db1 u
    by (cases "tokens_update_usedAt (tokenId rec) now db1")
      (auto simp: reset_password_def Let_def)
  note m = tokens_update_usedAt_rows[OF db2]
  have res: "?r = (db2, Success (JObj ok_body) None)"
    using pre rec ne nf nf2 db1 db2 by (simp add: reset_password_def Let_def)
  show "snd ?r = Success (JObj ok_body) None" by (simp add: res)
  have "body = Some b \<and> token b = Some t \<and> newPassword b = Some p \<and>
         tokens_findFirst ''reset'' (sha256Hex t) db = Some rec \<and>
         users (fst ?r) =
           map (\<lambda>u. if uid u = userId rec then u\<lparr>password := hashSync p\<rparr> else u) (users db) \<and>
         tokens_table (fst ?r) =
           map (\<lambda>r. if tokenId r = tokenId rec then r\<lparr>usedAt := Some now\<rparr> else r) (tokens_table db)"
    using b t p rec u m unfolding res by simp
  then show "\<exists>b t p rec. body = Some b \<and> token b = Some t \<and> newPassword b = Some p \<and>
         tokens_findFirst ''reset'' (sha256Hex t) db = Some rec \<and>
         users (fst ?r) =
           map (\<lambda>u. if uid u = userId rec then u\<lparr>password := hashSync p\<rparr> else u) (users db) \<and>
         tokens_table (fst ?r) =
           map (\<lambda>r. if tokenId r = tokenId rec then r\<lparr>usedAt := Some now\<rparr> else r) (tokens_table db)"
    by blast
qed

theorem reset_password_marks_after_update_witness:
  "(let db1 = fst (forgot_password ex_digest ascii_toLowerCase ex_env False
                     (Some (Some ''ann@example.com'')) ''beef'' 0 ex_db);
        row = \<lparr>tokenId = 1, userId = 1, tokenType = ''reset'', tokenHash = ''sha256:beef'',
                expiresAt = 1800000, usedAt = None, createdAt = 0\<rparr>;
        changed = ex_user\<lparr>password := ''$2a$08$NewPass1!''\<rparr>
    in tokens_findFirst ''reset'' (ex_digest ''beef'') db1 = Some row \<and>
       reset_password ex_digest ex_hashSync UsersUpdateFails (ex_reset_body ''beef'') 1000 db1 =
         (db1, Error ''Failed to reset password'' (Some 400)) \<and>
       reset_password ex_digest ex_hashSync TokensUpdateFails (ex_reset_body ''beef'') 1000 db1 =
         (db1\<lparr>users := [changed]\<rparr>, Error ''Failed to reset password'' (Some 400)) \<and>
       reset_password ex_digest ex_hashSync NoFault (ex_reset_body ''beef'') 1000 db1 =
         (db1\<lparr>users := [changed], tokens_table := [row\<lparr>usedAt := Some 1000\<rparr>]\<rparr>,
          Success (JObj ok_body) None) \<and>
       tokens_table (fst (reset_password ex_digest ex_hashSync NoFault (ex_reset_body ''beef'')
                            1000 db1)) \<noteq> tokens_table db1)"
proof -
  let ?db1 = "fst (forgot_password ex_digest ascii_toLowerCase ex_env False
                     (Some (Some ''ann@example.com'')) ''beef'' 0 ex_db)"
  let ?row = "\<lparr>tokenId = 1, userId = 1, tokenType = ''reset'', tokenHash = ''sha256:beef'',
                expiresAt = 1800000, usedAt = None, createdAt = 0\<rparr>"
  let ?b = "\<lparr>token = Some ''beef'', newPassword = Some ''NewPass1!'',
             confirmPassword = Some ''NewPass1!''\<rparr>"
  have db1: "?db1 = ex_db\<lparr>tokens_table := [?row], nextTokenId := 2\<rparr>"
    by (simp add: forgot_password_def ascii_toLowerCase_def Let_def ex_defs db_defs)
  have found: "tokens_findFirst ''reset'' (ex_digest ''beef'') ?db1 = Some ?row"
    unfolding db1 by (simp add: tokens_findFirst_def ex_digest_def)
  have pre: "ex_reset_body ''beef'' = Some ?b \<and> token ?b = Some ''beef'' \<and>
      newPassword ?b = Some ''NewPass1!'' \<and> confirmPassword ?b = Some ''NewPass1!'' \<and>
      ''beef'' \<noteq> [] \<and> ''NewPass1!'' \<noteq> [] \<and>
      tokens_findFirst ''reset'' (ex_digest ''beef'') ?db1 = Some ?row \<and>
      \<not> expiresAt ?row < 1000"
    using found by (simp add: ex_reset_body_def)
  have owner: "userId ?row \<in> set (map uid (users ?db1))"
    unfolding db1 by (simp add: ex_db_def ex_user_def)
  note branches = reset_password_marks_after_update [where body = "ex_reset_body ''beef''"
      and b = ?b and t = "''beef''" and p = "''NewPass1!''" and sha256Hex = ex_digest
      and hashSync = ex_hashSync and now = 1000 and db = ?db1 and rec = ?row]
  have r1: "reset_password ex_digest ex_hashSync UsersUpdateFails (ex_reset_body ''beef'') 1000 ?db1 =
      (?db1, Error ''Failed to reset password'' (Some 400))"
    using branches [where fault = UsersUpdateFails, THEN conjunct1, THEN mp, OF pre, THEN conjunct1]
    by simp
  have r2: "reset_password ex_digest ex_hashSync TokensUpdateFails (ex_reset_body ''beef'') 1000 ?db1 =
      (?db1\<lparr>users := map (\<lambda>u. if uid u = userId ?row
                 then u\<lparr>password := ex_hashSync ''NewPass1!''\<rparr> else u) (users ?db1)\<rparr>,
       Error ''Failed to reset password'' (Some 400))"
    using branches [where fault = TokensUpdateFails, THEN conjunct1, THEN mp, OF pre,
        THEN conjunct2, THEN conjunct1] owner
    by simp
  have r3: "reset_password ex_digest ex_hashSync NoFault (ex_reset_body ''beef'') 1000 ?db1 =
      (?db1\<lparr>users := map (\<lambda>u. if uid u = userId ?row
                 then u\<lparr>password := ex_hashSync ''NewPass1!''\<rparr> else u) (users ?db1),
             tokens_table := map (\<lambda>r. if tokenId r = tokenId ?row then r\<lparr>usedAt := Some 1000\<rparr>
                                        else r) (tokens_table ?db1)\<rparr>,
       Success (JObj ok_body) None)"
    using branches [where fault = NoFault, THEN conjunct1, THEN mp, OF pre,
        THEN conjunct2, THEN conjunct2] owner
    by simp
  show ?thesis
    using r1 r2 r3 found unfolding Let_def db1
    by (simp add: ex_db_def ex_user_def ex_hashSync_def)
qed

subsection \<open>Issuing\<close>

text \<open>
  C5. The answer to a password-reset request does not depend on whether the email is
  registered. In production, for a registered email the body carries a message next to
  \<^verbatim>\<open>ok\<close>, and a failure of the mail step turns the answer into a 500; for an unregistered
  email the body is \<^verbatim>\<open>{ok: true}\<close> in both cases.
\<close>

theorem forgot_password_response_depends_on_account:
  "snd (forgot_password sha256Hex ascii_toLowerCase ex_env False (Some (Some ''ann@example.com'')) raw now ex_db) =
     Success (JObj [(''ok'', JBool True), (''message'',
       JStr ''If an account exists with this email, a password reset link has been sent.'')]) None \<and>
   snd (forgot_password sha256Hex ascii_toLowerCase ex_env False (Some (Some ''bob@example.com'')) raw now ex_db) =
     Success (JObj [(''ok'', JBool True)]) None \<and>
   snd (forgot_password sha256Hex ascii_toLowerCase ex_env True (Some (Some ''ann@example.com'')) raw now ex_db) =
     Error ''Failed to send password reset email. Please try again later.'' (Some 500) \<and>
   snd (forgot_password sha256Hex ascii_toLowerCase ex_env True (Some (Some ''bob@example.com'')) raw now ex_db) =
     Success (JObj [(''ok'', JBool True)]) None"
  by (simp add: forgot_password_def ascii_toLowerCase_def Let_def ex_defs db_defs)

text \<open>
  C7. Issuing persists only the digest. On the issuing path of the password-reset request
  (whatever the lower-casing of the submitted email is, once it finds an account) and of
  the id-card generation, the database afterwards is the old one with one row
  appended: the next id, the owner, the type, the digest of the raw token, the expiry
  (30 and 10 minutes from now) and a null \<^verbatim>\<open>usedAt\<close>; the id-card answer carries the raw
  token. The stored state depends on the raw token through its digest only: two raw tokens
  with one digest leave the same database.
\<close>

theorem issue_persists_only_digest:
  "(find (\<lambda>u. email u = toLowerCase em) (users db) = Some user \<and> toLowerCase em \<noteq> [] \<longrightarrow>
      fst (forgot_password sha256Hex toLowerCase e thr (Some (Some em)) raw now db) =
        tokens_create (uid user) ''reset'' (sha256Hex raw) (now + 1800000) now db) \<and>
   (u \<noteq> 0 \<and> find (\<lambda>c. cardId c = cid \<and> cardUserId c = u) (idCards db) = Some c \<and>
    \<not> (truthy (imageUrl c) \<and> truthy (publicId c)) \<longrightarrow>
      id_card_generate sha256Hex (Some u) (Parsed cid) raw now db =
        (tokens_create u ''idcard'' (sha256Hex raw) (now + 600000) now db,
         Success (JObj [(''token'', JStr raw), (''expiresAt'', JDate (now + 600000))]) None)) \<and>
   tokens_create owner ty h expires now db =
     db\<lparr>tokens_table := tokens_table db @
           [\<lparr>tokenId = nextTokenId db, userId = owner, tokenType = ty, tokenHash = h,
             expiresAt = expires, usedAt = None, createdAt = now\<rparr>],
        nextTokenId := Suc (nextTokenId db)\<rparr> \<and>
   (sha256Hex raw = sha256Hex raw' \<longrightarrow>
      fst (forgot_password sha256Hex toLowerCase e thr body raw now db) =
        fst (forgot_password sha256Hex toLowerCase e thr body raw' now db) \<and>
      fst (id_card_generate sha256Hex auth req raw now db) =
        fst (id_card_generate sha256Hex auth req raw' now db))"
  using forgot_password_issue[where toLowerCase = toLowerCase and em = em and db = db
      and user = user and sha256Hex = sha256Hex and e = e and thr = thr and raw = raw and now = now]
    id_card_generate_mint[of u cid db c sha256Hex raw now]
    forgot_password_digest_only[where sha256Hex = sha256Hex and raw = raw and raw' = raw'
      and toLowerCase = toLowerCase and e = e and thr = thr and body = body and now = now and db = db]
    id_card_generate_digest_only[of sha256Hex raw raw' auth req now db]
  by (simp add: tokens_create_def)

lemma toLowerCase_example: "ascii_toLowerCase ''Ann@Example.com'' = ''ann@example.com''"
  by code_simp

theorem issue_persists_only_digest_witness:
  "find (\<lambda>u. email u = ascii_toLowerCase ''Ann@Example.com'') (users ex_db) = Some ex_user \<and>
   tokens_table (fst (forgot_password (take 10) ascii_toLowerCase ex_env False (Some (Some ''Ann@Example.com''))
                        ''0123456789abcdef'' 5 ex_db)) =
     [\<lparr>tokenId = 1, userId = 1, tokenType = ''reset'', tokenHash = ''0123456789'',
       expiresAt = 1800005, usedAt = None, createdAt = 5\<rparr>] \<and>
   id_card_generate (take 10) (Some 1) (Parsed 7) ''0123456789abcdef'' 5 ex_db =
     (ex_db\<lparr>tokens_table :=
         [\<lparr>tokenId = 1, userId = 1, tokenType = ''idcard'', tokenHash = ''0123456789'',
           expiresAt = 600005, usedAt = None, createdAt = 5\<rparr>], nextTokenId := 2\<rparr>,
      Success (JObj [(''token'', JStr ''0123456789abcdef''), (''expiresAt'', JDate 600005)]) None) \<and>
   take 10 ''0123456789abcdef'' = take 10 ''0123456789ABCDEF'' \<and>
   fst (forgot_password (take 10) ascii_toLowerCase ex_env False (Some (Some ''Ann@Example.com''))
          ''0123456789abcdef'' 5 ex_db) =
   fst (forgot_password (take 10) ascii_toLowerCase ex_env False (Some (Some ''Ann@Example.com''))
          ''0123456789ABCDEF'' 5 ex_db)"
  using issue_persists_only_digest [where toLowerCase = ascii_toLowerCase
      and em = "''Ann@Example.com''" and db = ex_db and user = ex_user and sha256Hex = "take 10"
      and e = ex_env and thr = False and raw = "''0123456789abcdef''" and now = 5 and u = 1
      and cid = 7 and c = "\<lparr>cardId = 7, cardUserId = 1, imageUrl = None, publicId = None\<rparr>"
      and owner = 1 and ty = "''reset''" and h = "''0123456789''" and expires = 1800005
      and raw' = "''0123456789ABCDEF''" and body = "Some (Some ''Ann@Example.com'')"
      and auth = "Some 1" and req = "Parsed 7"]
  by (simp add: toLowerCase_example truthy_def tokens_create_def forgot_password_def
        id_card_generate_def Let_def ex_defs)

text \<open>
  C10. Id-card generation mints a token only for a card without a stored image. For an
  authenticated request whose card is found: with both \<^verbatim>\<open>imageUrl\<close> and \<^verbatim>\<open>publicId\<close> set
  (and non-empty) the answer is the stored URL and the database is unchanged; otherwise one
  row of type \<^verbatim>\<open>idcard\<close> expiring 10 minutes from now is appended and the answer carries the
  raw token and that expiry. Conversely, whenever the database changes, the request was
  authenticated, its card was found and the card had no stored image.
\<close>

theorem id_card_generate_mints_without_image:
  "(u \<noteq> 0 \<and> find (\<lambda>c. cardId c = cid \<and> cardUserId c = u) (idCards db) = Some c \<longrightarrow>
     (imageUrl c = Some url \<and> publicId c = Some pid \<and> url \<noteq> [] \<and> pid \<noteq> [] \<longrightarrow>
        id_card_generate sha256Hex (Some u) (Parsed cid) raw now db =
          (db, Success (JObj [(''url'', JStr url), (''publicId'', JStr pid)]) None)) \<and>
     (\<not> (truthy (imageUrl c) \<and> truthy (publicId c)) \<longrightarrow>
        id_card_generate sha256Hex (Some u) (Parsed cid) raw now db =
          (db\<lparr>tokens_table := tokens_table db @
               [\<lparr>tokenId = nextTokenId db, userId = u, tokenType = ''idcard'',
                 tokenHash = sha256Hex raw, expiresAt = now + 600000, usedAt = None,
                 createdAt = now\<rparr>],
              nextTokenId := Suc (nextTokenId db)\<rparr>,
           Success (JObj [(''token'', JStr raw), (''expiresAt'', JDate (now + 600000))]) None)) \<and>
     (truthy (imageUrl c) \<and> truthy (publicId c)) =
       (\<exists>url pid. imageUrl c = Some url \<and> publicId c = Some pid \<and> url \<noteq> [] \<and> pid \<noteq> [])) \<and>
   (fst (id_card_generate sha256Hex auth req raw now db) \<noteq> db \<longrightarrow>
      (\<exists>u cid c. auth = Some u \<and> u \<noteq> 0 \<and> req = Parsed cid \<and>
         find (\<lambda>c. cardId c = cid \<and> cardUserId c = u) (idCards db) = Some c \<and>
         \<not> (truthy (imageUrl c) \<and> truthy (publicId c))))"
proof (intro conjI impI)
  assume a: "u \<noteq> 0 \<and> find (\<lambda>c. cardId c = cid \<and> cardUserId c = u) (idCards db) = Some c"
  {
    assume "imageUrl c = Some url \<and> publicId c = Some pid \<and> url \<noteq> [] \<and> pid \<noteq> []"
    with a show "id_card_generate sha256Hex (Some u) (Parsed cid) raw now db =
          (db, Success (JObj [(''url'', JStr url), (''publicId'', JStr pid)]) None)"
      by (simp add: id_card_generate_stored)
  }
  {
    assume "\<not> (truthy (imageUrl c) \<and> truthy (publicId c))"
    with a show "id_card_generate sha256Hex (Some u) (Parsed cid) raw now db =
          (db\<lparr>tokens_table := tokens_table db @
               [\<lparr>tokenId = nextTokenId db, userId = u, tokenType = ''idcard'',
                 tokenHash = sha256Hex raw, expiresAt = now + 600000, usedAt = None,
                 createdAt = now\<rparr>],
              nextTokenId := Suc (nextTokenId db)\<rparr>,
           Success (JObj [(''token'', JStr raw), (''expiresAt'', JDate (now + 600000))]) None)"
      using id_card_generate_mint[of u cid db c sha256Hex raw now]
      by (simp add: tokens_create_def)
  }
  show "(truthy (imageUrl c) \<and> truthy (publicId c)) =
       (\<exists>url pid. imageUrl c = Some url \<and> publicId c = Some pid \<and> url \<noteq> [] \<and> pid \<noteq> [])"
    by (auto simp: truthy_def split: option.splits)
next
  assume "fst (id_card_generate sha256Hex auth req raw now db) \<noteq> db"
  then show "\<exists>u cid c. auth = Some u \<and> u \<noteq> 0 \<and> req = Parsed cid \<and>
         find (\<lambda>c. cardId c = cid \<and> cardUserId c = u) (idCards db) = Some c \<and>
         \<not> (truthy (imageUrl c) \<and> truthy (publicId c))"
    by (rule id_card_generate_changes)
qed

theorem id_card_generate_mints_without_image_witness:
  "id_card_generate ex_digest (Some 1) (Parsed 7) ''c0ffee'' 5 ex_db =
     (ex_db\<lparr>tokens_table :=
         [\<lparr>tokenId = 1, userId = 1, tokenType = ''idcard'', tokenHash = ''sha256:c0ffee'',
           expiresAt = 600005, usedAt = None, createdAt = 5\<rparr>], nextTokenId := 2\<rparr>,
      Success (JObj [(''token'', JStr ''c0ffee''), (''expiresAt'', JDate 600005)]) None) \<and>
   fst (id_card_generate ex_digest (Some 1) (Parsed 7) ''c0ffee'' 5 ex_db) \<noteq> ex_db \<and>
   id_card_generate ex_digest (Some 1) (Parsed 7) ''c0ffee'' 5
       (ex_db\<lparr>idCards := [\<lparr>cardId = 7, cardUserId = 1, imageUrl = Some ''https://cdn/7.png'',
                              publicId = Some ''cards/7''\<rparr>]\<rparr>) =
     (ex_db\<lparr>idCards := [\<lparr>cardId = 7, cardUserId = 1, imageUrl = Some ''https://cdn/7.png'',
                              publicId = Some ''cards/7''\<rparr>]\<rparr>,
      Success (JObj [(''url'', JStr ''https://cdn/7.png''), (''publicId'', JStr ''cards/7'')]) None)"
  using id_card_generate_mints_without_image [of 1 7 ex_db
      "\<lparr>cardId = 7, cardUserId = 1, imageUrl = None, publicId = None\<rparr>" undefined undefined
      ex_digest "''c0ffee''" 5 "Some 1" "Parsed 7"]
    id_card_generate_mints_without_image [of 1 7
      "ex_db\<lparr>idCards := [\<lparr>cardId = 7, cardUserId = 1, imageUrl = Some ''https://cdn/7.png'',
                              publicId = Some ''cards/7''\<rparr>]\<rparr>"
      "\<lparr>cardId = 7, cardUserId = 1, imageUrl = Some ''https://cdn/7.png'', publicId = Some ''cards/7''\<rparr>"
      "''https://cdn/7.png''" "''cards/7''" ex_digest "''c0ffee''" 5 "Some 1" "Parsed 7"]
  by (simp add: truthy_def id_card_generate_def tokens_create_def Let_def ex_defs)

section \<open>Properties of the signed tokens\<close>

text \<open>
  C2. Validating an issued token returns its claims, not expired before the TTL has elapsed
  and expired after it, 24 hours for the email-verification token. The verification token
  is signed without an \<^verbatim>\<open>exp\<close> claim (the constant \<^verbatim>\<open>EMAIL_VERIFICATION_EXPIRY\<close> is not
  used), so validating it with the same secret gives \<^verbatim>\<open>expired = false\<close> at every time,
  for instance 25 hours after issuing.
\<close>

theorem verification_token_never_expires:
  "verifyToken mac expiredName (generateVerificationToken mac user em secret) secret now =
     Inr (\<lparr>p_userId = Some user, p_email = Some em, purpose = Some ''email-verification'',
            exp_claim = None, p_data = None\<rparr>, False) \<and>
   verifyToken ex_mac ''JWTExpired''
       (generateVerificationToken ex_mac 1 ''ann@example.com'' ''s3cret'') ''s3cret''
       (1000 * 60 * 60 * 25) =
     Inr (\<lparr>p_userId = Some 1, p_email = Some ''ann@example.com'',
            purpose = Some ''email-verification'', exp_claim = None, p_data = None\<rparr>, False)"
  by (simp add: verifyToken_def generateVerificationToken_def sign_def verify_def)

lemma verifyToken_cases:
  "verifyToken mac expiredName (Jwt p sg) secret now =
     (if (case exp_claim p of None \<Rightarrow> False | Some e \<Rightarrow> e \<noteq> 0 \<and> e \<le> now div 1000)
      then (if expiredName = ''JWTExpired'' then Inr (p, True) else Inl (Thrown expiredName))
      else if sg = mac secret p then Inr (p, False)
      else Inl (Thrown ''JwtTokenSignatureMismatched''))"
  by (simp add: verifyToken_def verify_def)

text \<open>
  C6. The email-verification endpoint rejects a token whose purpose is not
  \<^verbatim>\<open>email-verification\<close>: the database is unchanged and the answer is a 400, with the
  message of an invalid verification token whenever the library accepts the token
  (signature valid, not expired), and with that message or the one of an invalid or
  expired link otherwise. The token that \<^verbatim>\<open>generateVerificationToken\<close> signs always
  carries the purpose \<^verbatim>\<open>email-verification\<close>.
\<close>

theorem verify_email_rejects_purpose_mismatch:
  "(purpose p \<noteq> Some ''email-verification'' \<longrightarrow>
     fst (verify_email mac expiredName e (Some (Jwt p sg)) now db) = db \<and>
     (snd (verify_email mac expiredName e (Some (Jwt p sg)) now db) =
        Error ''Invalid verification token'' (Some 400) \<or>
      snd (verify_email mac expiredName e (Some (Jwt p sg)) now db) =
        Error ''Invalid or expired verification link. Please request a new one.'' (Some 400)) \<and>
     (verify mac expiredName (Jwt p sg) (JWT_SECRET e) now = Inr p \<longrightarrow>
        snd (verify_email mac expiredName e (Some (Jwt p sg)) now db) =
          Error ''Invalid verification token'' (Some 400))) \<and>
     (\<exists>sg'. generateVerificationToken mac user em secret =
         Jwt \<lparr>p_userId = Some user, p_email = Some em, purpose = Some ''email-verification'',
               exp_claim = None, p_data = None\<rparr> sg')"
  by (auto simp: verify_email_def verifyToken_cases verify_def generateVerificationToken_def
        sign_def split: option.splits if_splits)

theorem verify_email_rejects_purpose_mismatch_witness:
  "purpose \<lparr>p_userId = None, p_email = None, purpose = None, exp_claim = Some 3600,
             p_data = Some \<lparr>sd_id = 1, sd_email = ''ann@example.com'', sd_name = ''Ann'',
                             sd_role = ''USER''\<rparr>\<rparr> \<noteq> Some ''email-verification'' \<and>
   login_token ex_mac ex_user ''s3cret'' 0 =
     Jwt \<lparr>p_userId = None, p_email = None, purpose = None, exp_claim = Some 3600,
             p_data = Some \<lparr>sd_id = 1, sd_email = ''ann@example.com'', sd_name = ''Ann'',
                             sd_role = ''USER''\<rparr>\<rparr> ''s3cretsession'' \<and>
   verify ex_mac ''JwtTokenExpired'' (login_token ex_mac ex_user ''s3cret'' 0) ''s3cret'' 1000 =
     Inr \<lparr>p_userId = None, p_email = None, purpose = None, exp_claim = Some 3600,
             p_data = Some \<lparr>sd_id = 1, sd_email = ''ann@example.com'', sd_name = ''Ann'',
                             sd_role = ''USER''\<rparr>\<rparr> \<and>
   verify_email ex_mac ''JwtTokenExpired'' ex_env (Some (login_token ex_mac ex_user ''s3cret'' 0))
       1000 ex_db =
     (ex_db, Error ''Invalid verification token'' (Some 400))"
  using verify_email_rejects_purpose_mismatch [of
      "\<lparr>p_userId = None, p_email = None, purpose = None, exp_claim = Some 3600,
             p_data = Some \<lparr>sd_id = 1, sd_email = ''ann@example.com'', sd_name = ''Ann'',
                             sd_role = ''USER''\<rparr>\<rparr>"
      ex_mac "''JwtTokenExpired''" ex_env "''s3cretsession''" 1000 ex_db 1 "''ann@example.com''"
      "''s3cret''"]
  by (simp add: verify_email_def verifyToken_def verify_def login_token_def sign_def ex_defs)

end
